theory Spec2Isabelle
  imports Main "HOL-Library.Word" "HOL-Library.Signed_Division"
begin

section \<open>Severity vocabularies\<close>

text \<open>
  \<^verbatim>\<open>logrus.Level\<close> is a \<^verbatim>\<open>uint32\<close>; the library numbers its levels from the most severe,
  \<^verbatim>\<open>PanicLevel = 0\<close>, to \<^verbatim>\<open>TraceLevel = 6\<close>. Every other 32-bit value is a level value too,
  only without a name.
\<close>

type_synonym Level = "32 word"

definition PanicLevel :: Level where "PanicLevel = 0"
definition FatalLevel :: Level where "FatalLevel = 1"
definition ErrorLevel :: Level where "ErrorLevel = 2"
definition WarnLevel :: Level where "WarnLevel = 3"
definition InfoLevel :: Level where "InfoLevel = 4"
definition DebugLevel :: Level where "DebugLevel = 5"
definition TraceLevel :: Level where "TraceLevel = 6"

text \<open>The four levels of the queue client (\<^verbatim>\<open>nsq.LogLevel\<close>) that the code produces.\<close>

datatype nsq_LogLevel = LogLevelDebug | LogLevelInfo | LogLevelWarning | LogLevelError

text \<open>
  \<^verbatim>\<open>func (l Logger) getNSQLogLevel() nsq.LogLevel\<close>: a switch on \<^verbatim>\<open>l.Level\<close> with six cases and
  a fall-through return of \<^verbatim>\<open>nsq.LogLevelInfo\<close>. The receiver is read through its level only.
\<close>

definition getNSQLogLevel :: "Level \<Rightarrow> nsq_LogLevel" where
  "getNSQLogLevel l =
     (if l = DebugLevel then LogLevelDebug
      else if l = InfoLevel then LogLevelInfo
      else if l = WarnLevel then LogLevelWarning
      else if l = ErrorLevel then LogLevelError
      else if l = FatalLevel then LogLevelError
      else if l = PanicLevel then LogLevelError
      else LogLevelInfo)"

text \<open>
  \<^verbatim>\<open>getLogrusLogLevel\<close>: a map literal with four keys, a two-result lookup and the default
  \<^verbatim>\<open>logrus.InfoLevel\<close> when the key is absent.
\<close>

definition lookup :: "string \<rightharpoonup> Level" where
  "lookup = [''ERROR'' \<mapsto> ErrorLevel, ''WARNING'' \<mapsto> WarnLevel,
             ''INFO'' \<mapsto> InfoLevel, ''DEBUG'' \<mapsto> DebugLevel]"

definition getLogrusLogLevel :: "string \<Rightarrow> Level" where
  "getLogrusLogLevel level =
     (case lookup level of
        Some loglevel \<Rightarrow> loglevel
      | None \<Rightarrow> InfoLevel)"

section \<open>Go strings and the library functions the code calls\<close>

text \<open>
  A Go string is a sequence of bytes: \<^verbatim>\<open>len\<close> counts bytes and \<^verbatim>\<open>s[:3]\<close> slices bytes.
  \<^typ>\<open>string\<close> is a list of 8-bit characters, so \<^const>\<open>length\<close>, \<^const>\<open>take\<close> and
  \<^const>\<open>drop\<close> are \<^verbatim>\<open>len(s)\<close>, \<^verbatim>\<open>s[:n]\<close> and \<^verbatim>\<open>s[n:]\<close>.

  \<^verbatim>\<open>strings.TrimSpace\<close> removes leading and trailing white space as Unicode defines it
  (\<^verbatim>\<open>unicode.IsSpace\<close>): the six ASCII characters tab, line feed, vertical tab, form feed,
  carriage return and space, and the runes U+0085, U+00A0, U+1680, U+2000 to U+200A, U+2028,
  U+2029, U+202F, U+205F and U+3000. \<open>spaceRunes\<close> lists their UTF-8 encodings. A byte
  sequence that is not one of these encodings decodes to another rune (or to the error rune,
  one byte wide), which is not white space.
\<close>

definition spaceRunes :: "string list" where
  "spaceRunes =
     [[CHR 0x09], [CHR 0x0A], [CHR 0x0B], [CHR 0x0C], [CHR 0x0D], [CHR 0x20],
      [CHR 0xC2, CHR 0x85], [CHR 0xC2, CHR 0xA0],
      [CHR 0xE1, CHR 0x9A, CHR 0x80],
      [CHR 0xE2, CHR 0x80, CHR 0x80], [CHR 0xE2, CHR 0x80, CHR 0x81],
      [CHR 0xE2, CHR 0x80, CHR 0x82], [CHR 0xE2, CHR 0x80, CHR 0x83],
      [CHR 0xE2, CHR 0x80, CHR 0x84], [CHR 0xE2, CHR 0x80, CHR 0x85],
      [CHR 0xE2, CHR 0x80, CHR 0x86], [CHR 0xE2, CHR 0x80, CHR 0x87],
      [CHR 0xE2, CHR 0x80, CHR 0x88], [CHR 0xE2, CHR 0x80, CHR 0x89],
      [CHR 0xE2, CHR 0x80, CHR 0x8A],
      [CHR 0xE2, CHR 0x80, CHR 0xA8], [CHR 0xE2, CHR 0x80, CHR 0xA9],
      [CHR 0xE2, CHR 0x80, CHR 0xAF], [CHR 0xE2, CHR 0x81, CHR 0x9F],
      [CHR 0xE3, CHR 0x80, CHR 0x80]]"

text \<open>\<open>stripOne ps s\<close> removes from the front of \<open>s\<close> the first sequence of \<open>ps\<close> it starts with.\<close>

fun stripOne :: "string list \<Rightarrow> string \<Rightarrow> string option" where
  "stripOne [] s = None"
| "stripOne (p # ps) s =
     (if p \<noteq> [] \<and> take (length p) s = p then Some (drop (length p) s) else stripOne ps s)"

lemma stripOne_shorter: "stripOne ps s = Some t \<Longrightarrow> length t < length s"
proof (induction ps)
  case Nil
  then show ?case by simp
next
  case (Cons p ps)
  show ?case
  proof (cases "p \<noteq> [] \<and> take (length p) s = p")
    case True
    then have "s \<noteq> []" by auto
    with True Cons.prems show ?thesis by auto
  next
    case False
    with Cons show ?thesis by auto
  qed
qed

function stripAll :: "string list \<Rightarrow> string \<Rightarrow> string" where
  "stripAll ps s = (case stripOne ps s of None \<Rightarrow> s | Some t \<Rightarrow> stripAll ps t)"
  by pat_completeness auto
termination
  by (relation "measure (\<lambda>(ps, s). length s)") (auto dest: stripOne_shorter)

declare stripAll.simps [simp del]

text \<open>
  \<^verbatim>\<open>TrimSpace\<close> trims the front, then the back of what is left. The last rune of a string
  is white space exactly when the string ends with one of the encodings, so the back is
  trimmed on the reversed string with the reversed encodings.
\<close>

definition TrimSpace :: "string \<Rightarrow> string" where
  "TrimSpace s = rev (stripAll (map rev spaceRunes) (rev (stripAll spaceRunes s)))"

text \<open>
  \<^verbatim>\<open>strings.Split(s, sep)\<close> for a separator of one byte (the code splits on \<^verbatim>\<open>","\<close>): the
  pieces between the separators, in order. The result is never empty; the empty string
  splits into one empty piece.
\<close>

fun Split :: "string \<Rightarrow> char \<Rightarrow> string list" where
  "Split [] sep = [[]]"
| "Split (c # cs) sep =
     (if c = sep then [] # Split cs sep
      else (case Split cs sep of [] \<Rightarrow> [[c]] | p # ps \<Rightarrow> (c # p) # ps))"

text \<open>
  \<^verbatim>\<open>strconv.Atoi(s)\<close> is \<^verbatim>\<open>strconv.ParseInt(s, 10, 0)\<close> converted to \<^verbatim>\<open>int\<close> (its fast path
  for short inputs computes the same result). \<^verbatim>\<open>ParseUint\<close> reads the digits left to right
  in a \<^verbatim>\<open>uint64\<close>; a byte that is no decimal digit is a syntax error with value 0, and the
  first digit that overflows is a range error with the largest value, before the rest of the
  input is looked at. \<^verbatim>\<open>ParseInt\<close> takes the sign off first and, on a range error, returns
  the nearest representable value together with the error. The size of \<^verbatim>\<open>int\<close> is that of
  the 64-bit targets.
\<close>

datatype strconv_error = ErrSyntax | ErrRange

definition IntSize :: nat where
  "IntSize = 64"

definition isDigit :: "char \<Rightarrow> bool" where
  "isDigit c = (48 \<le> (of_char c :: nat) \<and> (of_char c :: nat) \<le> 57)"

fun ParseUint_loop :: "int \<Rightarrow> int \<Rightarrow> string \<Rightarrow> int \<times> strconv_error option" where
  "ParseUint_loop maxVal n [] = (n, None)"
| "ParseUint_loop maxVal n (c # cs) =
     (if \<not> isDigit c then (0, Some ErrSyntax)
      else if n \<ge> (2 ^ 64 - 1) div 10 + 1 then (maxVal, Some ErrRange)
      else
        let n10 = n * 10;
            n1 = (n10 + (of_char c - 48)) mod 2 ^ 64
        in if n1 < n10 \<or> n1 > maxVal then (maxVal, Some ErrRange)
           else ParseUint_loop maxVal n1 cs)"

definition ParseUint :: "string \<Rightarrow> nat \<Rightarrow> int \<times> strconv_error option" where
  "ParseUint s bitSize =
     (if s = [] then (0, Some ErrSyntax)
      else ParseUint_loop (2 ^ (if bitSize = 0 then IntSize else bitSize) - 1) 0 s)"

definition ParseInt :: "string \<Rightarrow> nat \<Rightarrow> int \<times> strconv_error option" where
  "ParseInt s0 bitSize =
     (if s0 = [] then (0, Some ErrSyntax)
      else
        let neg = (hd s0 = CHR ''-'');
            s = (if hd s0 = CHR ''+'' \<or> hd s0 = CHR ''-'' then tl s0 else s0);
            (un, err) = ParseUint s bitSize
        in if err = Some ErrSyntax then (0, err)
           else
             let cutoff = (2::int) ^ ((if bitSize = 0 then IntSize else bitSize) - 1)
             in if \<not> neg \<and> un \<ge> cutoff then (cutoff - 1, Some ErrRange)
                else if neg \<and> un > cutoff then (- cutoff, Some ErrRange)
                else (if neg then - un else un, None))"

definition Atoi :: "string \<Rightarrow> int \<times> strconv_error option" where
  "Atoi s = ParseInt s 0"




section \<open>Errors, field values and entries\<close>

text \<open>
  A Go error value, as far as the code looks at it: the name of its dynamic type
  (\<^verbatim>\<open>reflect.TypeOf(err).String()\<close>), its message (\<^verbatim>\<open>err.Error()\<close>) and the error it wraps
  (\<^verbatim>\<open>errors.Unwrap(err)\<close>, nil for an error without an \<^verbatim>\<open>Unwrap\<close> method).
\<close>

datatype go_error = GoError (errType: string) (errMsg: string) (errUnwrap: "go_error option")

text \<open>
  \<^verbatim>\<open>fmt.Errorf("%s: %w", m, err)\<close> is a \<^verbatim>\<open>*fmt.wrapError\<close> that wraps \<^verbatim>\<open>err\<close>;
  \<^verbatim>\<open>fmt.Errorf("%s", m)\<close> has no \<^verbatim>\<open>%w\<close> and is the \<^verbatim>\<open>*errors.errorString\<close> of \<^verbatim>\<open>errors.New\<close>.
\<close>

definition Errorf_wrap :: "string \<Rightarrow> go_error \<Rightarrow> go_error" where
  "Errorf_wrap m e = GoError ''*fmt.wrapError'' (m @ '': '' @ errMsg e) (Some e)"

definition Errorf_msg :: "string \<Rightarrow> go_error" where
  "Errorf_msg m = GoError ''*errors.errorString'' m None"

text \<open>
  The values the enrichment methods store in a field (\<^verbatim>\<open>interface{}\<close> in the source): a
  string, an \<^verbatim>\<open>int\<close>, an \<^verbatim>\<open>int64\<close>, a \<^verbatim>\<open>uint64\<close>, an error, or the nil interface.
  Values of a function type, which \<^verbatim>\<open>WithFields\<close> refuses to store, are not among them.
\<close>

datatype val =
    StringV string
  | IntV int
  | Int64V "64 word"
  | Uint64V "64 word"
  | ErrorV go_error
  | NilV

type_synonym Fields = "string \<rightharpoonup> val"

text \<open>
  \<^verbatim>\<open>logrus.Entry\<close>, with the fields the code reads or that \<^verbatim>\<open>WithFields\<close> sets: the owning
  logger (by identity), the field set, the message and the field-error text.
\<close>

record logrus_Entry =
  Logger :: nat
  Data :: Fields
  Message :: string
  err :: string

text \<open>
  \<^verbatim>\<open>(*logrus.Entry).WithFields\<close> makes a new map, copies the receiver's fields into it, writes
  the new fields over them, and returns a new entry of the same logger. The receiver's map is
  only read. \<^verbatim>\<open>WithField\<close> and \<^verbatim>\<open>WithError\<close> are \<^verbatim>\<open>WithFields\<close> of one field, the latter under
  the key \<^verbatim>\<open>"error"\<close>.
\<close>

definition logrus_WithFields :: "logrus_Entry \<Rightarrow> Fields \<Rightarrow> logrus_Entry" where
  "logrus_WithFields entry new =
     \<lparr>Logger = Logger entry, Data = Data entry ++ new, Message = [], err = err entry\<rparr>"

definition logrus_WithField :: "logrus_Entry \<Rightarrow> string \<Rightarrow> val \<Rightarrow> logrus_Entry" where
  "logrus_WithField entry key v = logrus_WithFields entry [key \<mapsto> v]"


definition logrus_NewEntry :: "nat \<Rightarrow> logrus_Entry" where
  "logrus_NewEntry logger = \<lparr>Logger = logger, Data = Map.empty, Message = [], err = []\<rparr>"

subsection \<open>The store of entries\<close>

text \<open>
  The methods take and return \<^verbatim>\<open>*Entry\<close>. An \<^verbatim>\<open>Entry\<close> holds nothing but its
  \<^verbatim>\<open>*logrus.Entry\<close>, so one address stands for both. The store is the list of the entries
  allocated so far; a new entry goes to the end. Dereferencing nil panics: \<open>None\<close> as the
  result of a method is that panic.
\<close>

datatype ptr = NilPtr | Ptr nat

type_synonym heap = "logrus_Entry list"

fun deref :: "heap \<Rightarrow> ptr \<Rightarrow> logrus_Entry option" where
  "deref h NilPtr = None"
| "deref h (Ptr a) = (if a < length h then Some (h ! a) else None)"

definition alloc :: "heap \<Rightarrow> logrus_Entry \<Rightarrow> heap \<times> ptr" where
  "alloc h entry = (h @ [entry], Ptr (length h))"

subsection \<open>The enrichment methods of \<^verbatim>\<open>Entry\<close>\<close>

definition WithField :: "heap \<Rightarrow> ptr \<Rightarrow> string \<Rightarrow> val \<Rightarrow> (heap \<times> ptr) option" where
  "WithField h e field v =
     (case deref h e of
        None \<Rightarrow> None
      | Some entry \<Rightarrow> Some (alloc h (logrus_WithField entry field v)))"




definition WithStringFieldIgnoreEmpty ::
  "heap \<Rightarrow> ptr \<Rightarrow> string \<Rightarrow> string \<Rightarrow> (heap \<times> ptr) option" where
  "WithStringFieldIgnoreEmpty h e field v =
     (if length (TrimSpace v) > 0 then WithField h e field (StringV v)
      else Some (h, e))"


text \<open>
  \<^verbatim>\<open>WithEvent\<close>. \<^verbatim>\<open>split[0]\<close> and \<^verbatim>\<open>split[1]\<close>, \<^verbatim>\<open>split[2]\<close> are index expressions, which panic
  out of range. The errors of \<^verbatim>\<open>strconv.Atoi\<close> are assigned to the blank identifier.
\<close>

definition index :: "'a list \<Rightarrow> nat \<Rightarrow> 'a option" where
  "index xs i = (if i < length xs then Some (xs ! i) else None)"

definition WithEvent :: "heap \<Rightarrow> ptr \<Rightarrow> string \<Rightarrow> (heap \<times> ptr) option" where
  "WithEvent h e event =
     (let split = Split event CHR '','' in
      case index split 0 of
        None \<Rightarrow> None
      | Some eventName \<Rightarrow>
          if length split = 2 then
            (case index split 1 of
               None \<Rightarrow> None
             | Some s1 \<Rightarrow>
                 let objectID = fst (Atoi s1) in
                 Option.bind (WithStringFieldIgnoreEmpty h e ''event_name'' eventName)
                   (\<lambda>(h1, e1). WithField h1 e1 ''object_id'' (IntV objectID)))
          else if length split = 3 then
            (case (index split 1, index split 2) of
               (Some s1, Some s2) \<Rightarrow>
                 let objectID = fst (Atoi s1);
                     subjectID = fst (Atoi s2)
                 in
                 Option.bind (WithStringFieldIgnoreEmpty h e ''event_name'' eventName)
                   (\<lambda>(h1, e1).
                      Option.bind (WithField h1 e1 ''object_id'' (IntV objectID))
                        (\<lambda>(h2, e2). WithField h2 e2 ''subject_id'' (IntV subjectID)))
             | _ \<Rightarrow> None)
          else WithStringFieldIgnoreEmpty h e ''event'' event)"



text \<open>
  A \<^verbatim>\<open>time.Duration\<close> is an \<^verbatim>\<open>int64\<close> count of nanoseconds. \<^verbatim>\<open>Duration.Round(m)\<close> rounds to
  the nearest multiple of \<^verbatim>\<open>m\<close>, halfway values away from zero, and returns the largest or
  smallest duration when the rounded value does not fit. Its arithmetic is that of
  \<^verbatim>\<open>int64\<close>: \<open>+\<close> and \<open>-\<close> wrap, \<^verbatim>\<open>%\<close> and \<^verbatim>\<open>/\<close> truncate towards zero
  (\<open>smod\<close> and \<open>sdiv\<close> on the signed values), comparisons are signed, and
  \<^verbatim>\<open>lessThanHalf\<close> compares in \<^verbatim>\<open>uint64\<close>.
\<close>

type_synonym Duration = "64 word"

definition Millisecond :: Duration where
  "Millisecond = 1000000"

definition minDuration :: Duration where
  "minDuration = - (2 ^ 63)"

definition maxDuration :: Duration where
  "maxDuration = 2 ^ 63 - 1"

definition lessThanHalf :: "Duration \<Rightarrow> Duration \<Rightarrow> bool" where
  "lessThanHalf x y = (unat (x + x) < unat y)"

definition Round :: "Duration \<Rightarrow> Duration \<Rightarrow> Duration" where
  "Round d m =
     (if sint m \<le> 0 then d
      else
        let r = word_of_int (sint d smod sint m) in
        if sint d < 0 then
          (let r = - r in
           if lessThanHalf r m then d + r
           else
             let d1 = d - m + r in
             if sint d1 < sint d then d1 else minDuration)
        else if lessThanHalf r m then d - r
        else
          let d1 = d + m - r in
          if sint d1 > sint d then d1 else maxDuration)"

definition Nanoseconds :: "Duration \<Rightarrow> 64 word" where
  "Nanoseconds d = d"

text \<open>\<^verbatim>\<open>d.Round(time.Millisecond).Nanoseconds()/1000000\<close>, a division of \<^verbatim>\<open>int64\<close>.\<close>

definition duration_ms :: "Duration \<Rightarrow> 64 word" where
  "duration_ms d = word_of_int (sint (Nanoseconds (Round d Millisecond)) sdiv 1000000)"

definition WithDuration :: "heap \<Rightarrow> ptr \<Rightarrow> Duration \<Rightarrow> (heap \<times> ptr) option" where
  "WithDuration h e d = WithField h e ''duration_ms'' (Int64V (duration_ms d))"

text \<open>
  The second tracked version of the file adds the raw nanoseconds under a second key; the
  two are otherwise the same.
\<close>

definition WithDuration_v2 :: "heap \<Rightarrow> ptr \<Rightarrow> Duration \<Rightarrow> (heap \<times> ptr) option" where
  "WithDuration_v2 h e d =
     Option.bind (WithField h e ''duration_ms'' (Int64V (duration_ms d)))
       (\<lambda>(h1, e1). WithField h1 e1 ''nsq_message_process_duration'' (Int64V (Nanoseconds d)))"

definition WithE2EDuration :: "heap \<Rightarrow> ptr \<Rightarrow> Duration \<Rightarrow> (heap \<times> ptr) option" where
  "WithE2EDuration h e d = WithField h e ''e2e_duration_ms'' (Int64V (duration_ms d))"









section \<open>The adapter for the queue client\<close>

text \<open>
  The package variables \<^verbatim>\<open>nsqDebugLevel\<close>, \<^verbatim>\<open>nsqInfoLevel\<close>, \<^verbatim>\<open>nsqWarnLevel\<close> and
  \<^verbatim>\<open>nsqErrLevel\<close> are the \<^verbatim>\<open>String()\<close> forms of the queue client's four levels. The client
  library is not part of the repository, so the four strings are a parameter of the model.
\<close>

record nsq_names =
  nsqDebugLevel :: string
  nsqInfoLevel :: string
  nsqWarnLevel :: string
  nsqErrLevel :: string

text \<open>The logging calls \<^verbatim>\<open>Output\<close> makes on the entry of the adapter, each with its message.\<close>

datatype log_call =
    Debugln ptr string
  | Infoln ptr string
  | Warnln ptr string
  | Errorln ptr string

text \<open>
  \<^verbatim>\<open>func (n NSQLogger) Output(_ int, s string) error\<close>. The result is the returned error (nil
  is \<open>None\<close>) with the logging calls made; the methods are reached through the adapter's
  \<^verbatim>\<open>*Entry\<close>, which must not be nil. A \<^verbatim>\<open>switch\<close> takes the first case that matches.
\<close>

definition Output ::
  "nsq_names \<Rightarrow> heap \<Rightarrow> ptr \<Rightarrow> int \<Rightarrow> string \<Rightarrow> (go_error option \<times> log_call list) option" where
  "Output names h n depth s =
     (if length s > 3 then
        (case deref h n of
           None \<Rightarrow> None
         | Some entry \<Rightarrow>
             let msg = TrimSpace (drop 3 s);
                 tag = take 3 s
             in Some (None,
                  [if tag = nsqDebugLevel names then Debugln n msg
                   else if tag = nsqInfoLevel names then Infoln n msg
                   else if tag = nsqWarnLevel names then Warnln n msg
                   else if tag = nsqErrLevel names then Errorln n msg
                   else Infoln n msg]))
      else Some (None, []))"

text \<open>\<^verbatim>\<open>(*Logger).NewEntry\<close> and \<^verbatim>\<open>(*Logger).NSQLogger\<close>, for a logger given by identity and level.\<close>

definition NewEntry :: "heap \<Rightarrow> nat \<Rightarrow> heap \<times> ptr" where
  "NewEntry h l = alloc h (logrus_NewEntry l)"

definition NSQLogger :: "heap \<Rightarrow> nat \<Rightarrow> Level \<Rightarrow> (heap \<times> ptr \<times> nsq_LogLevel) option" where
  "NSQLogger h l lvl =
     (case NewEntry h l of
        (h1, e1) \<Rightarrow>
          map_option (\<lambda>(h2, e2). (h2, e2, getNSQLogLevel lvl))
            (WithField h1 e1 ''component'' (StringV ''nsq'')))"

section \<open>The error-reporting hook\<close>

text \<open>
  \<^verbatim>\<open>bugsnag.MetaData\<close> is a map from a tab name to a map of values. \<^verbatim>\<open>bugsnag.Notify\<close>
  belongs to the reporting client and is a parameter: it receives the error, the number of
  stack frames to skip (the argument of \<^verbatim>\<open>bugsnag_errors.New\<close>) and the metadata, and returns
  nil or the error of the submission.
\<close>

type_synonym MetaData = "string \<rightharpoonup> Fields"

type_synonym notifier = "go_error \<Rightarrow> nat \<Rightarrow> MetaData \<Rightarrow> go_error option"

definition Fire :: "notifier \<Rightarrow> logrus_Entry \<Rightarrow> go_error option" where
  "Fire Notify entry =
     (let notifyErr =
            (case Data entry ''error'' of
               Some (ErrorV er) \<Rightarrow>
                 if Message entry \<noteq> [] then Errorf_wrap (Message entry) er else er
             | _ \<Rightarrow> Errorf_msg (Message entry));
          metadata =
            [''metadata'' \<mapsto> (\<lambda>key. if key \<noteq> ''error'' then Data entry key else None)];
          skipStackFrames = 4;
          bugsnagErr = Notify notifyErr skipStackFrames metadata
      in case bugsnagErr of Some be \<Rightarrow> Some be | None \<Rightarrow> None)"

definition Levels :: "Level list" where
  "Levels = [ErrorLevel, FatalLevel, PanicLevel]"

text \<open>
  The callback \<^verbatim>\<open>Init\<close> registers with \<^verbatim>\<open>bugsnag.OnBeforeNotify\<close>. Of the event it reads
  \<^verbatim>\<open>ErrorClass\<close> and \<^verbatim>\<open>Error.Err\<close>. The \<^verbatim>\<open>for\<close> loop has no condition; it is left by the two
  \<^verbatim>\<open>break\<close> statements only. \<open>fuel\<close> bounds the number of iterations of the model:
  \<open>None\<close> says that the loop is still running when the fuel is used up. \<open>count\<close> is a Go
  \<^verbatim>\<open>int\<close>. Each call of \<^verbatim>\<open>Log.Infof\<close> is recorded with the two class names it prints.
\<close>

record bugsnag_Event =
  ErrorClass :: string
  Err :: go_error

fun unwrap_loop ::
  "nat \<Rightarrow> bugsnag_Event \<Rightarrow> string \<Rightarrow> 64 word \<Rightarrow> (string \<times> string) list
    \<Rightarrow> (string \<times> (string \<times> string) list) option" where
  "unwrap_loop 0 event errClass count logs = None"
| "unwrap_loop (Suc fuel) event errClass count logs =
     (if errClass \<noteq> ''*fmt.wrapError'' then Some (errClass, logs)
      else
        (case errUnwrap (Err event) of
           None \<Rightarrow> Some (errClass, logs)
         | Some wrappedError \<Rightarrow>
             let errClass' = errType wrappedError;
                 count' = count + 1;
                 logs' = (if sint count' \<ge> 11 then logs @ [(ErrorClass event, errClass')]
                          else logs)
             in unwrap_loop fuel event errClass' count' logs'))"

definition OnBeforeNotify ::
  "nat \<Rightarrow> bugsnag_Event \<Rightarrow> (bugsnag_Event \<times> (string \<times> string) list \<times> go_error option) option" where
  "OnBeforeNotify fuel event =
     map_option (\<lambda>(errClass, logs). (event\<lparr>ErrorClass := errClass\<rparr>, logs, None))
       (unwrap_loop fuel event (ErrorClass event) 0 [])"

section \<open>Loggers and initialisation\<close>

datatype formatter = TextFormatter | JSONFormatter string string

datatype hook = bugsnagHook | logrus_bugsnag_Hook

record logrus_Logger =
  Level :: Level
  Formatter :: formatter
  Hooks :: "Level \<Rightarrow> hook list"

text \<open>\<^verbatim>\<open>LevelHooks.Add\<close> appends the hook to the list of each level of \<^verbatim>\<open>hook.Levels()\<close>.\<close>

definition Hooks_Add :: "(Level \<Rightarrow> hook list) \<Rightarrow> hook \<Rightarrow> Level list \<Rightarrow> (Level \<Rightarrow> hook list)" where
  "Hooks_Add hooks hk lvls = foldl (\<lambda>hs l. hs(l := hs l @ [hk])) hooks lvls"

record LoggingConfig =
  LogLevel :: string
  Environment :: string
  AppVersion :: string
  BugsnagAPIKey :: string
  BugsnagNotifyReleaseStages :: "string list"
  BugsnagProjectPackages :: "string list"
  BugsnagProjectPaths :: "string list"
  BugsnagPackageRoot :: string

definition RFC3339Nano :: string where
  "RFC3339Nano = ''2006-01-02T15:04:05.999999999Z07:00''"

text \<open>\<^verbatim>\<open>logrus.New()\<close>: a text formatter, no hooks, level INFO.\<close>

definition logrus_New :: logrus_Logger where
  "logrus_New = \<lparr>Level = InfoLevel, Formatter = TextFormatter, Hooks = (\<lambda>l. [])\<rparr>"

definition new :: "bool \<Rightarrow> LoggingConfig \<Rightarrow> logrus_Logger" where
  "new withBugsnag config =
     (let log = logrus_New;
          log = log\<lparr>Formatter := JSONFormatter RFC3339Nano ''message''\<rparr>;
          log = log\<lparr>Level := getLogrusLogLevel (LogLevel config)\<rparr>
      in if withBugsnag then log\<lparr>Hooks := Hooks_Add (Hooks log) bugsnagHook Levels\<rparr>
         else log)"

text \<open>
  In the second tracked version the hook is the one of the \<^verbatim>\<open>logrus-bugsnag\<close> package,
  added only when \<^verbatim>\<open>NewBugsnagHook\<close> returns no error. Whether it does is a parameter; the
  levels of that hook are a parameter too.
\<close>

definition addBugsnagHook :: "Level list option \<Rightarrow> logrus_Logger \<Rightarrow> logrus_Logger" where
  "addBugsnagHook newHook log =
     (case newHook of
        Some lvls \<Rightarrow> log\<lparr>Hooks := Hooks_Add (Hooks log) logrus_bugsnag_Hook lvls\<rparr>
      | None \<Rightarrow> log)"

definition new_v2 :: "Level list option \<Rightarrow> bool \<Rightarrow> LoggingConfig \<Rightarrow> logrus_Logger" where
  "new_v2 newHook withBugsnag config =
     (let log = logrus_New;
          log = log\<lparr>Formatter := JSONFormatter RFC3339Nano ''message''\<rparr>;
          log = log\<lparr>Level := getLogrusLogLevel (LogLevel config)\<rparr>
      in if withBugsnag then addBugsnagHook newHook log else log)"

text \<open>
  The process-wide state \<^verbatim>\<open>Init\<close> touches: the package variable \<^verbatim>\<open>Log\<close> (nil is \<open>None\<close>),
  the configurations given to \<^verbatim>\<open>bugsnag.Configure\<close> so far, and the number of callbacks
  registered with \<^verbatim>\<open>bugsnag.OnBeforeNotify\<close>.
\<close>

record bugsnag_Configuration =
  APIKey :: string
  ReleaseStage :: string
  bugsnag_AppVersion :: string
  NotifyReleaseStages :: "string list"
  ProjectPackages :: "string list"
  ProjectPaths :: "string list"
  PackageRoot :: string
  bugsnag_Logger :: "logrus_Logger \<times> string"

record globals =
  Log :: "logrus_Logger option"
  Configured :: "bugsnag_Configuration list"
  BeforeNotify :: nat

definition Init :: "LoggingConfig \<Rightarrow> globals \<Rightarrow> globals" where
  "Init config g =
     (if Log g = None then
        (let g = g\<lparr>Configured := Configured g @
                   [\<lparr>APIKey = BugsnagAPIKey config,
                     ReleaseStage = Environment config,
                     bugsnag_AppVersion = AppVersion config,
                     NotifyReleaseStages = BugsnagNotifyReleaseStages config,
                     ProjectPackages = BugsnagProjectPackages config,
                     ProjectPaths = BugsnagProjectPaths config,
                     PackageRoot = BugsnagPackageRoot config,
                     bugsnag_Logger = (new False config, ''bugsnag: '')\<rparr>]\<rparr>;
             g = g\<lparr>BeforeNotify := BeforeNotify g + 1\<rparr>
         in g\<lparr>Log := Some (new True config)\<rparr>)
      else g)"

text \<open>The second version has no package root in its configuration and registers no callback.\<close>

definition Init_v2 :: "Level list option \<Rightarrow> LoggingConfig \<Rightarrow> globals \<Rightarrow> globals" where
  "Init_v2 newHook config g =
     (if Log g = None then
        (let g = g\<lparr>Configured := Configured g @
                   [\<lparr>APIKey = BugsnagAPIKey config,
                     ReleaseStage = Environment config,
                     bugsnag_AppVersion = AppVersion config,
                     NotifyReleaseStages = BugsnagNotifyReleaseStages config,
                     ProjectPackages = BugsnagProjectPackages config,
                     ProjectPaths = BugsnagProjectPaths config,
                     PackageRoot = [],
                     bugsnag_Logger = (new_v2 newHook False config, ''bugsnag: '')\<rparr>]\<rparr>
         in g\<lparr>Log := Some (new_v2 newHook True config)\<rparr>)
      else g)"

section \<open>Facts about the library functions and the store\<close>

lemmas Level_defs =
  PanicLevel_def FatalLevel_def ErrorLevel_def WarnLevel_def InfoLevel_def DebugLevel_def
  TraceLevel_def

lemma stripOne_spaceRune:
  assumes "r \<in> set spaceRunes"
  shows "stripOne spaceRunes (r @ t) = Some t"
proof -
  have "r \<in> set spaceRunes \<longrightarrow> stripOne spaceRunes (r @ t) = Some t"
    unfolding spaceRunes_def set_simps insert_iff empty_iff
    by (intro impI, elim disjE FalseE) simp_all
  with assms show ?thesis by simp
qed

lemma stripAll_Nil: "stripAll ps [] = []"
proof -
  have "stripOne ps [] = None" by (induction ps) auto
  then show ?thesis by (simp add: stripAll.simps)
qed

lemma stripAll_spaces:
  "set rs \<subseteq> set spaceRunes \<Longrightarrow> stripAll spaceRunes (concat rs) = []"
proof (induction rs)
  case Nil
  then show ?case by (simp add: stripAll_Nil)
next
  case (Cons r rs)
  then have "stripOne spaceRunes (r @ concat rs) = Some (concat rs)"
    by (simp add: stripOne_spaceRune)
  moreover have "stripAll spaceRunes (concat rs) = []"
    using Cons by simp
  ultimately show ?case
    by (subst stripAll.simps) simp
qed

lemma TrimSpace_Nil: "TrimSpace [] = []"
  by (simp add: TrimSpace_def stripAll_Nil)

lemma TrimSpace_spaces: "set rs \<subseteq> set spaceRunes \<Longrightarrow> TrimSpace (concat rs) = []"
  by (simp add: TrimSpace_def stripAll_spaces stripAll_Nil)

lemma Split_not_Nil: "Split s sep \<noteq> []"
  by (induction s) (auto split: list.splits)

lemma length_Split: "length (Split s sep) = Suc (count_list s sep)"
  by (induction s) (auto split: list.splits simp: Split_not_Nil)







lemma of_char_digit_nat: "k < 10 \<Longrightarrow> (of_char (char_of (48 + k :: nat)) :: nat) = 48 + k"
  by simp










lemmas Atoi_eval =
  Atoi_def ParseInt_def ParseUint_def IntSize_def isDigit_def Let_def

lemmas TrimSpace_eval =
  TrimSpace_def spaceRunes_def stripAll.simps


lemma WithField_Some:
  "WithField h e k v = Some (h', e') \<longleftrightarrow>
     (\<exists>entry. deref h e = Some entry \<and> h' = h @ [logrus_WithField entry k v] \<and>
        e' = Ptr (length h))"
  by (auto simp: WithField_def alloc_def split: option.splits)

lemma WithField_valid:
  "deref h e = Some entry \<Longrightarrow>
   WithField h e k v = Some (h @ [logrus_WithField entry k v], Ptr (length h))"
  by (simp add: WithField_def alloc_def)

lemma Data_WithField: "Data (logrus_WithField entry k v) = (Data entry)(k \<mapsto> v)"
  by (simp add: logrus_WithField_def logrus_WithFields_def)

lemma IgnoreEmpty_Some:
  "WithStringFieldIgnoreEmpty h e k v = Some (h', e') \<Longrightarrow>
     (TrimSpace v = [] \<and> h' = h \<and> e' = e) \<or>
     (TrimSpace v \<noteq> [] \<and> (\<exists>entry. deref h e = Some entry \<and>
        h' = h @ [logrus_WithField entry k (StringV v)] \<and> e' = Ptr (length h)))"
  by (auto simp: WithStringFieldIgnoreEmpty_def WithField_Some split: if_splits)









subsection \<open>Rounding a duration\<close>

lemma sint64_of_int_mod:
  "sint (word_of_int k :: 64 word) = (k + 2 ^ 63) mod 2 ^ 64 - 2 ^ 63"
  by (simp add: sint_sbintrunc' signed_take_bit_eq_take_bit_shift take_bit_eq_mod)

lemma sint64_in_range:
  "- (2 ^ 63) \<le> k \<Longrightarrow> k < 2 ^ 63 \<Longrightarrow> sint (word_of_int k :: 64 word) = k"
  by (simp add: sint64_of_int_mod)

lemma sint64_wrap_high:
  assumes "2 ^ 63 \<le> k" "k < 2 ^ 63 + 2 ^ 64"
  shows "sint (word_of_int k :: 64 word) = k - 2 ^ 64"
proof -
  have "(k + 2 ^ 63 - 2 ^ 64) mod 2 ^ 64 = k + 2 ^ 63 - 2 ^ 64"
    using assms by (intro mod_pos_pos_trivial) simp_all
  then have "(k + 2 ^ 63) mod 2 ^ 64 = k + 2 ^ 63 - 2 ^ 64"
    by (simp only: minus_mod_self2)
  then show ?thesis by (simp only: sint64_of_int_mod)
qed

lemma sint64_wrap_low:
  assumes "- (2 ^ 63) - 2 ^ 64 \<le> k" "k < - (2 ^ 63)"
  shows "sint (word_of_int k :: 64 word) = k + 2 ^ 64"
proof -
  have "(k + 2 ^ 63 + 2 ^ 64) mod 2 ^ 64 = k + 2 ^ 63 + 2 ^ 64"
    using assms by (intro mod_pos_pos_trivial) simp_all
  then have "(k + 2 ^ 63) mod 2 ^ 64 = k + 2 ^ 63 + 2 ^ 64"
    by (simp only: mod_add_self2)
  then show ?thesis by (simp only: sint64_of_int_mod)
qed

lemma unat64_of_int:
  "0 \<le> k \<Longrightarrow> k < 2 ^ 64 \<Longrightarrow> unat (word_of_int k :: 64 word) = nat k"
  by (simp add: unat_eq_nat_uint uint_word_of_int)

lemma sint64_bounds:
  "- 9223372036854775808 \<le> sint (d :: 64 word) \<and> sint d < 9223372036854775808"
  using sint_ge [of d] sint_lt [of d] by simp

lemma smod_nonneg: "0 \<le> k \<Longrightarrow> k smod 1000000 = k mod (1000000 :: int)"
  by (cases "k = 0") (simp_all add: signed_modulo_int_def)

lemma smod_neg: "k < 0 \<Longrightarrow> k smod 1000000 = - ((- k) mod (1000000 :: int))"
  by (simp add: signed_modulo_int_def)

lemma sint_Millisecond: "sint Millisecond = 1000000"
  by (simp add: Millisecond_def)

lemma unat_Millisecond: "unat Millisecond = 1000000"
  by (simp add: Millisecond_def)

lemma lessThanHalf_ms:
  assumes "0 \<le> R" "R < 1000000"
  shows "lessThanHalf (word_of_int R) Millisecond \<longleftrightarrow> 2 * R < 1000000"
proof -
  have "(word_of_int R :: 64 word) + word_of_int R = word_of_int (2 * R)"
    by simp
  moreover have "unat (word_of_int (2 * R) :: 64 word) = nat (2 * R)"
    using assms by (intro unat64_of_int) simp_all
  ultimately show ?thesis
    using assms by (simp add: lessThanHalf_def unat_Millisecond) linarith
qed

lemma Round_ms_nonneg:
  assumes "0 \<le> sint d"
  shows "sint (Round d Millisecond) =
     (if 2 * (sint d mod 1000000) < 1000000 then sint d - sint d mod 1000000
      else if sint d + 1000000 - sint d mod 1000000 < 2 ^ 63
        then sint d + 1000000 - sint d mod 1000000
      else 2 ^ 63 - 1)"
proof -
  let ?D = "sint d"
  define R where "R = ?D mod 1000000"
  have D: "0 \<le> ?D" "?D < 2 ^ 63"
    using assms sint64_bounds [of d] by simp_all
  have R: "0 \<le> R" "R < 1000000" "R \<le> ?D"
    using D by (simp_all add: R_def zmod_le_nonneg_dividend)
  have d: "d = word_of_int ?D" by simp
  have r: "?D smod 1000000 = R"
    using D by (simp add: smod_nonneg R_def)
  have half: "lessThanHalf (word_of_int R) Millisecond \<longleftrightarrow> 2 * R < 1000000"
    using R by (intro lessThanHalf_ms)
  have down: "sint (d - word_of_int R) = ?D - R"
  proof -
    have "d - word_of_int R = word_of_int (?D - R)" by simp
    moreover have "sint (word_of_int (?D - R) :: 64 word) = ?D - R"
      using D R by (intro sint64_in_range) simp_all
    ultimately show ?thesis by simp
  qed
  have up_word: "d + Millisecond - word_of_int R = word_of_int (?D + 1000000 - R)"
    by (simp add: Millisecond_def)
  have up_ok: "sint (d + Millisecond - word_of_int R) = ?D + 1000000 - R"
    if "?D + 1000000 - R < 2 ^ 63"
    unfolding up_word using that D R by (intro sint64_in_range) simp_all
  have up_wrap: "sint (d + Millisecond - word_of_int R) = ?D + 1000000 - R - 2 ^ 64"
    if "\<not> ?D + 1000000 - R < 2 ^ 63"
    unfolding up_word using that D R by (intro sint64_wrap_high) simp_all
  have max: "sint maxDuration = 2 ^ 63 - 1"
    by (simp add: maxDuration_def)
  have unfold: "Round d Millisecond =
      (if lessThanHalf (word_of_int R) Millisecond then d - word_of_int R
       else if sint (d + Millisecond - word_of_int R) > ?D
         then d + Millisecond - word_of_int R else maxDuration)"
    using D by (simp add: Round_def sint_Millisecond r Let_def)
  show ?thesis
  proof (cases "2 * R < 1000000")
    case True
    with half down show ?thesis
      by (simp add: unfold R_def [symmetric])
  next
    case False
    show ?thesis
    proof (cases "?D + 1000000 - R < 2 ^ 63")
      case True
      with False R half up_ok show ?thesis
        by (simp add: unfold R_def [symmetric])
    next
      case nofit: False
      with False D R half up_wrap max show ?thesis
        by (simp add: unfold R_def [symmetric])
    qed
  qed
qed

lemma Round_ms_neg:
  assumes "sint d < 0"
  shows "sint (Round d Millisecond) =
     (if 2 * ((- sint d) mod 1000000) < 1000000 then sint d + (- sint d) mod 1000000
      else if - (2 ^ 63) \<le> sint d - 1000000 + (- sint d) mod 1000000
        then sint d - 1000000 + (- sint d) mod 1000000
      else - (2 ^ 63))"
proof -
  let ?D = "sint d"
  define R where "R = (- ?D) mod 1000000"
  have D: "?D < 0" "- (2 ^ 63) \<le> ?D"
    using assms sint64_bounds [of d] by simp_all
  have R: "0 \<le> R" "R < 1000000" "R \<le> - ?D"
    using D by (simp_all add: R_def zmod_le_nonneg_dividend)
  have r: "?D smod 1000000 = - R"
    using D by (simp add: smod_neg R_def)
  have half: "lessThanHalf (word_of_int R) Millisecond \<longleftrightarrow> 2 * R < 1000000"
    using R by (intro lessThanHalf_ms)
  have up: "sint (d + word_of_int R) = ?D + R"
  proof -
    have "d + word_of_int R = word_of_int (?D + R)" by simp
    moreover have "sint (word_of_int (?D + R) :: 64 word) = ?D + R"
      using D R by (intro sint64_in_range) simp_all
    ultimately show ?thesis by simp
  qed
  have down_word: "d - Millisecond + word_of_int R = word_of_int (?D - 1000000 + R)"
    by (simp add: Millisecond_def)
  have down_ok: "sint (d - Millisecond + word_of_int R) = ?D - 1000000 + R"
    if "- (2 ^ 63) \<le> ?D - 1000000 + R"
    unfolding down_word using that D R by (intro sint64_in_range) simp_all
  have down_wrap: "sint (d - Millisecond + word_of_int R) = ?D - 1000000 + R + 2 ^ 64"
    if "\<not> - (2 ^ 63) \<le> ?D - 1000000 + R"
    unfolding down_word using that D R by (intro sint64_wrap_low) simp_all
  have min: "sint minDuration = - (2 ^ 63)"
    by (simp add: minDuration_def)
  have unfold: "Round d Millisecond =
      (if lessThanHalf (word_of_int R) Millisecond then d + word_of_int R
       else if sint (d - Millisecond + word_of_int R) < ?D
         then d - Millisecond + word_of_int R else minDuration)"
    using D by (simp add: Round_def sint_Millisecond r Let_def)
  show ?thesis
  proof (cases "2 * R < 1000000")
    case True
    with half up show ?thesis
      by (simp add: unfold R_def [symmetric])
  next
    case False
    show ?thesis
    proof (cases "- (2 ^ 63) \<le> ?D - 1000000 + R")
      case True
      with False R half down_ok show ?thesis
        by (simp add: unfold R_def [symmetric])
    next
      case nofit: False
      with False D R half down_wrap min show ?thesis
        by (simp add: unfold R_def [symmetric])
    qed
  qed
qed

lemma div_ms: "0 \<le> c \<Longrightarrow> c < 1000000 \<Longrightarrow> (1000000 * q + c) div 1000000 = (q :: int)"
  by simp

lemma sdiv_nonneg: "0 \<le> k \<Longrightarrow> k sdiv 1000000 = k div (1000000 :: int)"
  by (cases "k = 0") (simp_all add: signed_divide_int_def)

lemma sdiv_neg: "k < 0 \<Longrightarrow> k sdiv 1000000 = - ((- k) div (1000000 :: int))"
  by (simp add: signed_divide_int_def)

lemma div_ms_le: "0 \<le> k \<Longrightarrow> 0 \<le> k div 1000000 \<and> k div 1000000 \<le> (k :: int)"
proof -
  assume k: "0 \<le> k"
  have "k = 1000000 * (k div 1000000) + k mod 1000000" by simp
  moreover have "0 \<le> k mod 1000000" by simp
  moreover have "0 \<le> k div 1000000" using k by simp
  ultimately show ?thesis by linarith
qed

lemma sint_duration_ms: "sint (duration_ms d) = sint (Round d Millisecond) sdiv 1000000"
proof -
  let ?X = "sint (Round d Millisecond)"
  have X: "- (2 ^ 63) \<le> ?X" "?X < 2 ^ 63"
    using sint64_bounds [of "Round d Millisecond"] by simp_all
  have "- (2 ^ 63) \<le> ?X sdiv 1000000 \<and> ?X sdiv 1000000 < 2 ^ 63"
  proof (cases "0 \<le> ?X")
    case True
    then have "?X sdiv 1000000 = ?X div 1000000" by (rule sdiv_nonneg)
    moreover have "0 \<le> ?X div 1000000 \<and> ?X div 1000000 \<le> ?X"
      using True by (intro div_ms_le)
    ultimately show ?thesis using X by simp
  next
    case False
    then have "?X sdiv 1000000 = - ((- ?X) div 1000000)" by (simp add: sdiv_neg)
    moreover have "0 \<le> (- ?X) div 1000000 \<and> (- ?X) div 1000000 \<le> - ?X"
      using False by (intro div_ms_le) simp
    ultimately show ?thesis using X by simp
  qed
  then show ?thesis
    by (simp add: duration_ms_def Nanoseconds_def sint64_in_range)
qed

lemma duration_ms_nonneg:
  assumes "0 \<le> sint d"
  shows "sint (duration_ms d) =
     (if sint d < 9223372036854500000 then (sint d + 500000) div 1000000 else 9223372036854)"
proof -
  let ?D = "sint d"
  define Q where "Q = ?D div 1000000"
  define R where "R = ?D mod 1000000"
  have DQR: "?D = 1000000 * Q + R" by (simp add: Q_def R_def)
  have R: "0 \<le> R" "R < 1000000" by (simp_all add: R_def)
  have D: "0 \<le> ?D" "?D < 9223372036854775808"
    using assms sint64_bounds [of d] by simp_all
  have Q: "0 \<le> Q" using D by (simp add: Q_def)
  have a: "?D - R = 1000000 * Q" and b: "?D + 1000000 - R = 1000000 * (Q + 1)"
    using DQR by simp_all
  have "sint (Round d Millisecond) =
     (if 2 * R < 1000000 then ?D - R
      else if ?D + 1000000 - R < 2 ^ 63 then ?D + 1000000 - R
      else 2 ^ 63 - 1)"
    using Round_ms_nonneg [OF assms] by (simp only: R_def)
  then have round: "sint (Round d Millisecond) =
     (if 2 * R < 1000000 then 1000000 * Q
      else if 1000000 * (Q + 1) < 2 ^ 63 then 1000000 * (Q + 1)
      else 2 ^ 63 - 1)"
    by (simp only: a b)
  show ?thesis
  proof (cases "2 * R < 1000000")
    case True
    then have "sint (duration_ms d) = Q"
      using Q by (simp add: sint_duration_ms round sdiv_nonneg)
    moreover have "(?D + 500000) div 1000000 = Q"
    proof -
      have "?D + 500000 = 1000000 * Q + (R + 500000)" using DQR by simp
      then show ?thesis using True R div_ms [of "R + 500000" Q] by simp
    qed
    moreover have "?D < 9223372036854500000"
    proof -
      have "Q \<le> 9223372036854" using D DQR R by simp
      then show ?thesis using DQR True by simp
    qed
    ultimately show ?thesis by simp
  next
    case False
    have half: "(?D + 500000) div 1000000 = Q + 1"
    proof -
      have "?D + 500000 = 1000000 * (Q + 1) + (R - 500000)" using DQR by simp
      then show ?thesis using False R div_ms [of "R - 500000" "Q + 1"] by simp
    qed
    show ?thesis
    proof (cases "1000000 * (Q + 1) < (2::int) ^ 63")
      case True
      then have "sint (duration_ms d) = Q + 1"
        using Q False by (simp add: sint_duration_ms round sdiv_nonneg)
      moreover have "?D < 9223372036854500000"
      proof -
        from True have "Q + 1 \<le> 9223372036854" by simp
        then show ?thesis using DQR R by simp
      qed
      ultimately show ?thesis using half by simp
    next
      case nofit: False
      then have "sint (duration_ms d) = 9223372036854"
        using False by (simp add: sint_duration_ms round sdiv_nonneg)
      moreover have "\<not> ?D < 9223372036854500000"
      proof -
        from nofit have "9223372036854 \<le> Q" by simp
        then show ?thesis using DQR False by simp
      qed
      ultimately show ?thesis by simp
    qed
  qed
qed

lemma sdiv_neg_mult: "0 \<le> q \<Longrightarrow> (- (1000000 * q)) sdiv 1000000 = - (q :: int)"
  by (cases "q = 0") (simp_all add: sdiv_neg sdiv_nonneg)

lemma duration_ms_neg:
  assumes "sint d < 0"
  shows "sint (duration_ms d) =
     (if - 9223372036854500000 < sint d then - ((- sint d + 500000) div 1000000)
      else - 9223372036854)"
proof -
  let ?D = "sint d"
  define A where "A = - ?D"
  define Q where "Q = A div 1000000"
  define R where "R = A mod 1000000"
  have AQR: "A = 1000000 * Q + R" by (simp add: Q_def R_def)
  have R: "0 \<le> R" "R < 1000000" by (simp_all add: R_def)
  have A: "0 < A" "A \<le> 9223372036854775808"
    using assms sint64_bounds [of d] by (simp_all add: A_def)
  have Q: "0 \<le> Q" using A by (simp add: Q_def)
  have a: "?D + R = - (1000000 * Q)" and b: "?D - 1000000 + R = - (1000000 * (Q + 1))"
    using AQR by (simp_all add: A_def)
  have "sint (Round d Millisecond) =
     (if 2 * R < 1000000 then ?D + R
      else if - (2 ^ 63) \<le> ?D - 1000000 + R then ?D - 1000000 + R
      else - (2 ^ 63))"
    using Round_ms_neg [OF assms] by (simp only: R_def A_def)
  then have round: "sint (Round d Millisecond) =
     (if 2 * R < 1000000 then - (1000000 * Q)
      else if - (2 ^ 63) \<le> - (1000000 * (Q + 1)) then - (1000000 * (Q + 1))
      else - (2 ^ 63))"
    by (simp only: a b)
  show ?thesis
  proof (cases "2 * R < 1000000")
    case True
    then have "sint (duration_ms d) = - Q"
      using sdiv_neg_mult [OF Q] by (simp add: sint_duration_ms round)
    moreover have "(A + 500000) div 1000000 = Q"
    proof -
      have "A + 500000 = 1000000 * Q + (R + 500000)" using AQR by simp
      then show ?thesis using True R div_ms [of "R + 500000" Q] by simp
    qed
    moreover have "A < 9223372036854500000"
    proof -
      have "Q \<le> 9223372036854" using A AQR R by simp
      then show ?thesis using AQR True by simp
    qed
    ultimately show ?thesis by (simp add: A_def)
  next
    case False
    have half: "(A + 500000) div 1000000 = Q + 1"
    proof -
      have "A + 500000 = 1000000 * (Q + 1) + (R - 500000)" using AQR by simp
      then show ?thesis using False R div_ms [of "R - 500000" "Q + 1"] by simp
    qed
    show ?thesis
    proof (cases "- ((2::int) ^ 63) \<le> - (1000000 * (Q + 1))")
      case True
      have "0 \<le> Q + 1" using Q by simp
      from sdiv_neg_mult [OF this] True
      have "sint (duration_ms d) = - (Q + 1)"
        using False by (simp add: sint_duration_ms round)
      moreover have "A < 9223372036854500000"
      proof -
        from True have "Q + 1 \<le> 9223372036854" by simp
        then show ?thesis using AQR R by simp
      qed
      ultimately show ?thesis using half by (simp add: A_def)
    next
      case nofit: False
      then have "sint (duration_ms d) = - 9223372036854"
        using False by (simp add: sint_duration_ms round sdiv_neg)
      moreover have "\<not> A < 9223372036854500000"
      proof -
        from nofit have "9223372036854 \<le> Q" by simp
        then show ?thesis using AQR False by simp
      qed
      ultimately show ?thesis by (simp add: A_def)
    qed
  qed
qed

subsection \<open>The hook and the loop of the callback\<close>

lemma Hooks_new:
  "Hooks (new True config) lvl =
     (if lvl \<in> {ErrorLevel, FatalLevel, PanicLevel} then [bugsnagHook] else [])"
  by (simp add: new_def logrus_New_def Hooks_Add_def Levels_def Level_defs Let_def)

lemma unwrap_loop_stuck:
  assumes "errUnwrap (Err event) = Some w" "errType w = ''*fmt.wrapError''"
  shows "unwrap_loop fuel event ''*fmt.wrapError'' count logs = None"
  using assms by (induction fuel arbitrary: count logs) (simp_all add: Let_def)

lemma unwrap_loop_returns:
  assumes "errClass \<noteq> ''*fmt.wrapError'' \<or> errUnwrap (Err event) = None \<or>
           (\<exists>w. errUnwrap (Err event) = Some w \<and> errType w \<noteq> ''*fmt.wrapError'')"
  shows "\<exists>r. unwrap_loop (Suc (Suc fuel)) event errClass count logs = Some r"
  using assms by (auto simp: Let_def)

lemmas With_eval =
  WithEvent_def index_def WithStringFieldIgnoreEmpty_def WithField_def alloc_def
  logrus_WithField_def logrus_WithFields_def logrus_NewEntry_def

section \<open>Level parsing\<close>

text \<open>
  Claim C6. Level parsing is total and case-sensitive: the four exact strings
  \<^verbatim>\<open>"ERROR"\<close>, \<^verbatim>\<open>"WARNING"\<close>, \<^verbatim>\<open>"INFO"\<close> and \<^verbatim>\<open>"DEBUG"\<close> give their severities, and every
  other string (the empty one, garbage, lowercase spellings) gives INFO. The function returns
  a level and nothing else, so there is no error to raise.
\<close>

theorem getLogrusLogLevel_total:
  "getLogrusLogLevel ''ERROR'' = ErrorLevel \<and>
   getLogrusLogLevel ''WARNING'' = WarnLevel \<and>
   getLogrusLogLevel ''INFO'' = InfoLevel \<and>
   getLogrusLogLevel ''DEBUG'' = DebugLevel \<and>
   (\<forall>s. s \<notin> {''ERROR'', ''WARNING'', ''INFO'', ''DEBUG''} \<longrightarrow> getLogrusLogLevel s = InfoLevel)"
  by (simp add: getLogrusLogLevel_def lookup_def)

theorem getLogrusLogLevel_total_witness:
  "''error'' \<notin> {''ERROR'', ''WARNING'', ''INFO'', ''DEBUG''} \<and>
   getLogrusLogLevel ''error'' = InfoLevel \<and>
   getLogrusLogLevel [] = InfoLevel \<and>
   getLogrusLogLevel ''ashtashtnn212rn2h1h12hxxz'' = InfoLevel \<and>
   getLogrusLogLevel ''DEBUG'' = DebugLevel"
  using getLogrusLogLevel_total by simp

section \<open>Mapping to the queue client's levels\<close>

text \<open>
  Claim C7. The mapping sends DEBUG to Debug, INFO to Info, WARNING to Warning, each of
  ERROR, FATAL and PANIC to Error, and every other level value (TRACE and the unnamed ones)
  to Info.
\<close>

theorem getNSQLogLevel_mapping:
  "getNSQLogLevel DebugLevel = LogLevelDebug \<and>
   getNSQLogLevel InfoLevel = LogLevelInfo \<and>
   getNSQLogLevel WarnLevel = LogLevelWarning \<and>
   getNSQLogLevel ErrorLevel = LogLevelError \<and>
   getNSQLogLevel FatalLevel = LogLevelError \<and>
   getNSQLogLevel PanicLevel = LogLevelError \<and>
   (\<forall>l. l \<notin> {DebugLevel, InfoLevel, WarnLevel, ErrorLevel, FatalLevel, PanicLevel}
        \<longrightarrow> getNSQLogLevel l = LogLevelInfo)"
  by (simp add: getNSQLogLevel_def Level_defs)

theorem getNSQLogLevel_mapping_witness:
  "TraceLevel \<notin> {DebugLevel, InfoLevel, WarnLevel, ErrorLevel, FatalLevel, PanicLevel} \<and>
   getNSQLogLevel TraceLevel = LogLevelInfo \<and>
   getNSQLogLevel 4000000000 = LogLevelInfo \<and>
   getNSQLogLevel FatalLevel = LogLevelError"
  using getNSQLogLevel_mapping by (simp add: Level_defs)

section \<open>Fields that ignore an empty value\<close>

text \<open>
  Claim C10. For every key \<open>k\<close> and string \<open>v\<close>, \<open>WithStringFieldIgnoreEmpty\<close> returns the
  receiver and adds no field when \<open>v\<close> trimmed of leading and trailing white space is empty,
  which includes the empty \<open>v\<close> and every \<open>v\<close> made of white-space runes only; otherwise it
  is \<open>WithField\<close> of \<open>k\<close> and \<open>v\<close>. Both hold for every receiver, nil too.
\<close>

theorem WithStringFieldIgnoreEmpty_spec:
  "(TrimSpace v = [] \<longrightarrow> WithStringFieldIgnoreEmpty h e k v = Some (h, e)) \<and>
   (TrimSpace v \<noteq> [] \<longrightarrow>
      WithStringFieldIgnoreEmpty h e k v = WithField h e k (StringV v)) \<and>
   WithStringFieldIgnoreEmpty h e k [] = Some (h, e) \<and>
   (\<forall>rs. set rs \<subseteq> set spaceRunes \<longrightarrow>
      WithStringFieldIgnoreEmpty h e k (concat rs) = Some (h, e))"
  by (simp add: WithStringFieldIgnoreEmpty_def TrimSpace_spaces TrimSpace_Nil)

theorem WithStringFieldIgnoreEmpty_spec_witness:
  "TrimSpace ''   '' = [] \<and>
   WithStringFieldIgnoreEmpty [logrus_NewEntry 0] (Ptr 0) ''nsq'' ''   ''
     = Some ([logrus_NewEntry 0], Ptr 0) \<and>
   WithStringFieldIgnoreEmpty [logrus_NewEntry 0] (Ptr 0) ''nsq'' []
     = Some ([logrus_NewEntry 0], Ptr 0) \<and>
   set [[CHR 0xC2, CHR 0xA0], [CHR 0x09], [CHR 0xE3, CHR 0x80, CHR 0x80]] \<subseteq> set spaceRunes \<and>
   WithStringFieldIgnoreEmpty [logrus_NewEntry 0] (Ptr 0) ''nsq''
       [CHR 0xC2, CHR 0xA0, CHR 0x09, CHR 0xE3, CHR 0x80, CHR 0x80]
     = Some ([logrus_NewEntry 0], Ptr 0) \<and>
   TrimSpace ''asdf'' \<noteq> [] \<and>
   WithStringFieldIgnoreEmpty [logrus_NewEntry 0] (Ptr 0) ''nsq'' ''asdf''
     = WithField [logrus_NewEntry 0] (Ptr 0) ''nsq'' (StringV ''asdf'') \<and>
   WithStringFieldIgnoreEmpty [logrus_NewEntry 0] (Ptr 0) ''nsq'' ''asdf''
     = Some ([logrus_NewEntry 0,
              \<lparr>Logger = 0, Data = [''nsq'' \<mapsto> StringV ''asdf''], Message = [], err = []\<rparr>],
             Ptr 1)"
  using WithStringFieldIgnoreEmpty_spec
    [of "''   ''" "[logrus_NewEntry 0]" "Ptr 0" "''nsq''"]
    WithStringFieldIgnoreEmpty_spec
    [of "''asdf''" "[logrus_NewEntry 0]" "Ptr 0" "''nsq''"]
    WithStringFieldIgnoreEmpty_spec
    [of _ "[logrus_NewEntry 0]" "Ptr 0" "''nsq''", THEN conjunct2, THEN conjunct2,
      THEN conjunct2, THEN spec,
      of "[[CHR 0xC2, CHR 0xA0], [CHR 0x09], [CHR 0xE3, CHR 0x80, CHR 0x80]]"]
  by (simp add: TrimSpace_eval WithField_def alloc_def logrus_WithField_def
      logrus_WithFields_def logrus_NewEntry_def)

section \<open>Events\<close>




text \<open>The examples of the specification.\<close>

lemma WithEvent_examples:
  "map_option (\<lambda>(h', e'). map_option Data (deref h' e'))
     (WithEvent [logrus_NewEntry 0] (Ptr 0) ''purchase,42'')
     = Some (Some [''event_name'' \<mapsto> StringV ''purchase'', ''object_id'' \<mapsto> IntV 42])"
  "map_option (\<lambda>(h', e'). map_option Data (deref h' e'))
     (WithEvent [logrus_NewEntry 0] (Ptr 0) ''purchase,42,7'')
     = Some (Some [''event_name'' \<mapsto> StringV ''purchase'', ''object_id'' \<mapsto> IntV 42,
                   ''subject_id'' \<mapsto> IntV 7])"
  "map_option (\<lambda>(h', e'). map_option Data (deref h' e'))
     (WithEvent [logrus_NewEntry 0] (Ptr 0) ''not-a-number-here'')
     = Some (Some [''event'' \<mapsto> StringV ''not-a-number-here''])"
  "map_option (\<lambda>(h', e'). map_option Data (deref h' e'))
     (WithEvent [logrus_NewEntry 0] (Ptr 0) ''a,b,c,d'')
     = Some (Some [''event'' \<mapsto> StringV ''a,b,c,d''])"
  by (simp_all add: Atoi_eval TrimSpace_eval With_eval)

section \<open>The receiver of an enrichment method\<close>




section \<open>The adapter's \<^verbatim>\<open>Output\<close>\<close>

text \<open>
  Claim C2. For every call depth and every message \<open>s\<close>, \<open>Output\<close> returns the nil
  error. With \<open>len(s) \<le> 3\<close> it makes no logging call, for every adapter. With \<open>len(s) > 3\<close>,
  on an adapter whose entry is not nil, it makes exactly one logging call: it compares the
  first three bytes of \<open>s\<close> with the level names of the queue client for Debug, Info, Warning
  and Error, in this order, and logs the rest of \<open>s\<close>, trimmed of white space, at the first
  level whose name matches, and at Info when none of the four matches.
\<close>

theorem Output_spec:
  "(length s \<le> 3 \<longrightarrow> Output names h n depth s = Some (None, [])) \<and>
   (length s > 3 \<and> deref h n \<noteq> None \<longrightarrow>
      (\<exists>c. Output names h n depth s = Some (None, [c]) \<and>
        (take 3 s = nsqDebugLevel names \<longrightarrow> c = Debugln n (TrimSpace (drop 3 s))) \<and>
        (take 3 s \<noteq> nsqDebugLevel names \<and> take 3 s = nsqInfoLevel names \<longrightarrow>
           c = Infoln n (TrimSpace (drop 3 s))) \<and>
        (take 3 s \<notin> {nsqDebugLevel names, nsqInfoLevel names} \<and>
           take 3 s = nsqWarnLevel names \<longrightarrow>
           c = Warnln n (TrimSpace (drop 3 s))) \<and>
        (take 3 s \<notin> {nsqDebugLevel names, nsqInfoLevel names, nsqWarnLevel names} \<and>
           take 3 s = nsqErrLevel names \<longrightarrow>
           c = Errorln n (TrimSpace (drop 3 s))) \<and>
        (take 3 s \<notin> {nsqDebugLevel names, nsqInfoLevel names, nsqWarnLevel names,
             nsqErrLevel names} \<longrightarrow>
           c = Infoln n (TrimSpace (drop 3 s)))))"
  by (auto simp: Output_def Let_def)

text \<open>The witness takes the level names of \<^verbatim>\<open>go-nsq\<close>: DBG, INF, WRN and ERR.\<close>

theorem Output_spec_witness:
  "deref [logrus_NewEntry 0] (Ptr 0) \<noteq> None \<and>
   Output \<lparr>nsqDebugLevel = ''DBG'', nsqInfoLevel = ''INF'', nsqWarnLevel = ''WRN'',
           nsqErrLevel = ''ERR''\<rparr> [logrus_NewEntry 0] (Ptr 0) 2
       ''DBG    (127.0.0.1:4150) connecting  ''
     = Some (None, [Debugln (Ptr 0) ''(127.0.0.1:4150) connecting'']) \<and>
   Output \<lparr>nsqDebugLevel = ''DBG'', nsqInfoLevel = ''INF'', nsqWarnLevel = ''WRN'',
           nsqErrLevel = ''ERR''\<rparr> [logrus_NewEntry 0] (Ptr 0) 2 ''INF    1 ready''
     = Some (None, [Infoln (Ptr 0) ''1 ready'']) \<and>
   Output \<lparr>nsqDebugLevel = ''DBG'', nsqInfoLevel = ''INF'', nsqWarnLevel = ''WRN'',
           nsqErrLevel = ''ERR''\<rparr> [logrus_NewEntry 0] (Ptr 0) 2 ''WRN    1 slow''
     = Some (None, [Warnln (Ptr 0) ''1 slow'']) \<and>
   Output \<lparr>nsqDebugLevel = ''DBG'', nsqInfoLevel = ''INF'', nsqWarnLevel = ''WRN'',
           nsqErrLevel = ''ERR''\<rparr> [logrus_NewEntry 0] (Ptr 0) 2 ''ERR    1 IO error''
     = Some (None, [Errorln (Ptr 0) ''1 IO error'']) \<and>
   Output \<lparr>nsqDebugLevel = ''DBG'', nsqInfoLevel = ''INF'', nsqWarnLevel = ''WRN'',
           nsqErrLevel = ''ERR''\<rparr> [logrus_NewEntry 0] (Ptr 0) 2 ''hello world''
     = Some (None, [Infoln (Ptr 0) ''lo world'']) \<and>
   Output \<lparr>nsqDebugLevel = ''DBG'', nsqInfoLevel = ''INF'', nsqWarnLevel = ''WRN'',
           nsqErrLevel = ''ERR''\<rparr> [] NilPtr 2 ''ERR''
     = Some (None, [])"
  using Output_spec [of "''DBG    (127.0.0.1:4150) connecting  ''"
      "\<lparr>nsqDebugLevel = ''DBG'', nsqInfoLevel = ''INF'', nsqWarnLevel = ''WRN'',
           nsqErrLevel = ''ERR''\<rparr>" "[logrus_NewEntry 0]" "Ptr 0" 2]
    Output_spec [of "''INF    1 ready''"
      "\<lparr>nsqDebugLevel = ''DBG'', nsqInfoLevel = ''INF'', nsqWarnLevel = ''WRN'',
           nsqErrLevel = ''ERR''\<rparr>" "[logrus_NewEntry 0]" "Ptr 0" 2]
    Output_spec [of "''WRN    1 slow''"
      "\<lparr>nsqDebugLevel = ''DBG'', nsqInfoLevel = ''INF'', nsqWarnLevel = ''WRN'',
           nsqErrLevel = ''ERR''\<rparr>" "[logrus_NewEntry 0]" "Ptr 0" 2]
    Output_spec [of "''ERR    1 IO error''"
      "\<lparr>nsqDebugLevel = ''DBG'', nsqInfoLevel = ''INF'', nsqWarnLevel = ''WRN'',
           nsqErrLevel = ''ERR''\<rparr>" "[logrus_NewEntry 0]" "Ptr 0" 2]
    Output_spec [of "''hello world''"
      "\<lparr>nsqDebugLevel = ''DBG'', nsqInfoLevel = ''INF'', nsqWarnLevel = ''WRN'',
           nsqErrLevel = ''ERR''\<rparr>" "[logrus_NewEntry 0]" "Ptr 0" 2]
    Output_spec [of "''ERR''"
      "\<lparr>nsqDebugLevel = ''DBG'', nsqInfoLevel = ''INF'', nsqWarnLevel = ''WRN'',
           nsqErrLevel = ''ERR''\<rparr>" "[]" NilPtr 2]
  by (simp add: TrimSpace_eval)

section \<open>What the hook reports\<close>

text \<open>
  Claim C4. The hook names exactly the levels ERROR, FATAL and PANIC, and the logger that
  \<open>new\<close> builds with the hook holds it for exactly these levels. For every record it is
  fired on, the hook hands to the reporting client: the wrap of the error under the key
  \<open>error\<close> with the message as prefix, \<open>message: error\<close>, when the field holds an error
  and the message is not empty; that error as it is when the message is empty; an error made
  from the message alone when there is no such field. The metadata is one tab,
  \<open>metadata\<close>, with every field of the record but \<open>error\<close>. What the client returns,
  nil or the failure of the submission, is what the hook returns.
\<close>

theorem Fire_spec:
  "(lvl \<in> set Levels \<longleftrightarrow> lvl = ErrorLevel \<or> lvl = FatalLevel \<or> lvl = PanicLevel) \<and>
   (bugsnagHook \<in> set (Hooks (new True config) lvl)
      \<longleftrightarrow> lvl = ErrorLevel \<or> lvl = FatalLevel \<or> lvl = PanicLevel) \<and>
   (Data entry ''error'' = Some (ErrorV er) \<and> Message entry \<noteq> [] \<longrightarrow>
      Fire Notify entry =
        Notify (GoError ''*fmt.wrapError'' (Message entry @ '': '' @ errMsg er) (Some er)) 4
          [''metadata'' \<mapsto> Data entry |` (- {''error''})]) \<and>
   (Data entry ''error'' = Some (ErrorV er) \<and> Message entry = [] \<longrightarrow>
      Fire Notify entry = Notify er 4 [''metadata'' \<mapsto> Data entry |` (- {''error''})]) \<and>
   ((\<forall>x. Data entry ''error'' \<noteq> Some (ErrorV x)) \<longrightarrow>
      Fire Notify entry =
        Notify (GoError ''*errors.errorString'' (Message entry) None) 4
          [''metadata'' \<mapsto> Data entry |` (- {''error''})])"
proof -
  have md: "(\<lambda>key. if key \<noteq> ''error'' then Data entry key else None)
      = Data entry |` (- {''error''})"
    by (auto simp: restrict_map_def)
  have res: "\<And>x. (case x of Some be \<Rightarrow> Some be | None \<Rightarrow> None) = (x :: go_error option)"
    by (simp split: option.splits)
  show ?thesis
    by (auto simp: Levels_def Hooks_new Fire_def Let_def md res Errorf_wrap_def Errorf_msg_def
        split: option.splits val.splits)
qed

text \<open>
  The witness: a record with the message \<open>save failed\<close>, an error and a user id, and a
  client that fails and answers with the error it was given.
\<close>

theorem Fire_spec_witness:
  "Fire (\<lambda>e skip md. Some e)
     \<lparr>Logger = 0,
      Data = [''error'' \<mapsto> ErrorV (GoError ''*errors.errorString'' ''EOF'' None),
              ''user_id'' \<mapsto> Uint64V 10],
      Message = ''save failed'', err = []\<rparr>
     = Some (GoError ''*fmt.wrapError'' ''save failed: EOF''
         (Some (GoError ''*errors.errorString'' ''EOF'' None))) \<and>
   Fire (\<lambda>e skip md. Some e)
     \<lparr>Logger = 0,
      Data = [''error'' \<mapsto> ErrorV (GoError ''*errors.errorString'' ''EOF'' None)],
      Message = [], err = []\<rparr>
     = Some (GoError ''*errors.errorString'' ''EOF'' None) \<and>
   Fire (\<lambda>e skip md. Some e)
     \<lparr>Logger = 0, Data = [''error'' \<mapsto> StringV ''EOF'', ''user_id'' \<mapsto> Uint64V 10],
      Message = ''save failed'', err = []\<rparr>
     = Some (GoError ''*errors.errorString'' ''save failed'' None) \<and>
   Fire (\<lambda>e skip md. map_option (\<lambda>f. GoError ''fields'' (if f ''user_id'' = Some (Uint64V 10) \<and> f ''error'' = None then ''ok'' else ''no'') None) (md ''metadata''))
     \<lparr>Logger = 0,
      Data = [''error'' \<mapsto> ErrorV (GoError ''*errors.errorString'' ''EOF'' None),
              ''user_id'' \<mapsto> Uint64V 10],
      Message = ''save failed'', err = []\<rparr>
     = Some (GoError ''fields'' ''ok'' None) \<and>
   ErrorLevel \<in> set Levels \<and> WarnLevel \<notin> set Levels"
  using Fire_spec [of ErrorLevel _
      "\<lparr>Logger = 0,
        Data = [''error'' \<mapsto> ErrorV (GoError ''*errors.errorString'' ''EOF'' None),
                ''user_id'' \<mapsto> Uint64V 10],
        Message = ''save failed'', err = []\<rparr>"
      "GoError ''*errors.errorString'' ''EOF'' None" "\<lambda>e skip md. Some e"]
    Fire_spec [of WarnLevel _
      "\<lparr>Logger = 0,
        Data = [''error'' \<mapsto> ErrorV (GoError ''*errors.errorString'' ''EOF'' None)],
        Message = [], err = []\<rparr>"
      "GoError ''*errors.errorString'' ''EOF'' None" "\<lambda>e skip md. Some e"]
    Fire_spec [of WarnLevel _
      "\<lparr>Logger = 0, Data = [''error'' \<mapsto> StringV ''EOF'', ''user_id'' \<mapsto> Uint64V 10],
        Message = ''save failed'', err = []\<rparr>" _ "\<lambda>e skip md. Some e"]
    Fire_spec [of ErrorLevel _
      "\<lparr>Logger = 0,
        Data = [''error'' \<mapsto> ErrorV (GoError ''*errors.errorString'' ''EOF'' None),
                ''user_id'' \<mapsto> Uint64V 10],
        Message = ''save failed'', err = []\<rparr>"
      "GoError ''*errors.errorString'' ''EOF'' None"
      "\<lambda>e skip md. map_option (\<lambda>f. GoError ''fields'' (if f ''user_id'' = Some (Uint64V 10) \<and> f ''error'' = None then ''ok'' else ''no'') None) (md ''metadata'')"]
  by (simp add: Level_defs)

section \<open>Initialisation\<close>

text \<open>
  Claim C8. When the process-wide logger exists, \<open>Init\<close> changes nothing: the logger with
  its level, formatter and hooks, the configuration of the reporting client and its callbacks
  are what they were, and the configuration given to the call is dropped. After any call of
  \<open>Init\<close> the logger exists, so a second call is always of this kind. Both tracked
  versions of \<open>Init\<close> behave so.
\<close>

theorem Init_idempotent:
  "(Log g \<noteq> None \<longrightarrow> Init config g = g \<and> Init_v2 nh config g = g) \<and>
   Log (Init config g) \<noteq> None \<and> Log (Init_v2 nh config g) \<noteq> None \<and>
   Init c2 (Init config g) = Init config g \<and>
   Init_v2 nh2 c2 (Init_v2 nh config g) = Init_v2 nh config g \<and>
   (Log g = None \<longrightarrow> Log (Init config g) = Some (new True config) \<and>
      Log (Init_v2 nh config g) = Some (new_v2 nh True config))"
  by (simp add: Init_def Init_v2_def Let_def)

theorem Init_idempotent_witness:
  "Log \<lparr>Log = None, Configured = [], BeforeNotify = 0\<rparr> = None \<and>
   map_option Level
     (Log (Init \<lparr>LogLevel = ''DEBUG'', Environment = ''production'', AppVersion = ''1.0'',
                 BugsnagAPIKey = ''key'', BugsnagNotifyReleaseStages = [],
                 BugsnagProjectPackages = [], BugsnagProjectPaths = [],
                 BugsnagPackageRoot = []\<rparr>
             \<lparr>Log = None, Configured = [], BeforeNotify = 0\<rparr>)) = Some DebugLevel \<and>
   Log (Init \<lparr>LogLevel = ''DEBUG'', Environment = ''production'', AppVersion = ''1.0'',
              BugsnagAPIKey = ''key'', BugsnagNotifyReleaseStages = [],
              BugsnagProjectPackages = [], BugsnagProjectPaths = [],
              BugsnagPackageRoot = []\<rparr>
          \<lparr>Log = None, Configured = [], BeforeNotify = 0\<rparr>) \<noteq> None \<and>
   Init \<lparr>LogLevel = ''ERROR'', Environment = ''staging'', AppVersion = ''2.0'',
         BugsnagAPIKey = ''other'', BugsnagNotifyReleaseStages = [],
         BugsnagProjectPackages = [], BugsnagProjectPaths = [], BugsnagPackageRoot = []\<rparr>
     (Init \<lparr>LogLevel = ''DEBUG'', Environment = ''production'', AppVersion = ''1.0'',
            BugsnagAPIKey = ''key'', BugsnagNotifyReleaseStages = [],
            BugsnagProjectPackages = [], BugsnagProjectPaths = [],
            BugsnagPackageRoot = []\<rparr>
        \<lparr>Log = None, Configured = [], BeforeNotify = 0\<rparr>)
   = Init \<lparr>LogLevel = ''DEBUG'', Environment = ''production'', AppVersion = ''1.0'',
            BugsnagAPIKey = ''key'', BugsnagNotifyReleaseStages = [],
            BugsnagProjectPackages = [], BugsnagProjectPaths = [],
            BugsnagPackageRoot = []\<rparr>
        \<lparr>Log = None, Configured = [], BeforeNotify = 0\<rparr>"
  using Init_idempotent
    [of "Init \<lparr>LogLevel = ''DEBUG'', Environment = ''production'', AppVersion = ''1.0'',
            BugsnagAPIKey = ''key'', BugsnagNotifyReleaseStages = [],
            BugsnagProjectPackages = [], BugsnagProjectPaths = [],
            BugsnagPackageRoot = []\<rparr>
          \<lparr>Log = None, Configured = [], BeforeNotify = 0\<rparr>"
        "\<lparr>LogLevel = ''ERROR'', Environment = ''staging'', AppVersion = ''2.0'',
         BugsnagAPIKey = ''other'', BugsnagNotifyReleaseStages = [],
         BugsnagProjectPackages = [], BugsnagProjectPaths = [], BugsnagPackageRoot = []\<rparr>"]
    Init_idempotent
    [of "\<lparr>Log = None, Configured = [], BeforeNotify = 0\<rparr>"
        "\<lparr>LogLevel = ''DEBUG'', Environment = ''production'', AppVersion = ''1.0'',
            BugsnagAPIKey = ''key'', BugsnagNotifyReleaseStages = [],
            BugsnagProjectPackages = [], BugsnagProjectPaths = [],
            BugsnagPackageRoot = []\<rparr>"]
  by (simp add: Init_def Let_def new_def logrus_New_def getLogrusLogLevel_def lookup_def)

section \<open>The callback that unwraps the error class\<close>

text \<open>
  Claim C3 says that the unwrapping before a notification terminates. It does not: the loop
  unwraps \<^verbatim>\<open>event.Error.Err\<close> anew in every iteration and never the error it found, and
  the branch that logs after eleven iterations has no \<^verbatim>\<open>break\<close>. An event of class
  \<^verbatim>\<open>*fmt.wrapError\<close> whose error wraps another \<^verbatim>\<open>*fmt.wrapError\<close> keeps the loop running:
  whatever the number of iterations allowed, it has not returned. The hook makes such an
  event from a record with a message and a wrapped error: the error below is what \<open>Fire\<close>
  hands over for the message \<open>request failed\<close> and the error
  \<^verbatim>\<open>fmt.Errorf("read body: %w", io.EOF)\<close>.
\<close>

theorem OnBeforeNotify_diverges:
  "OnBeforeNotify fuel
     \<lparr>ErrorClass = ''*fmt.wrapError'',
      Err = Errorf_wrap ''request failed'' (Errorf_wrap ''read body'' (Errorf_msg ''EOF''))\<rparr>
   = None"
  by (simp add: OnBeforeNotify_def unwrap_loop_stuck Errorf_wrap_def)

theorem OnBeforeNotify_diverges_witness:
  "OnBeforeNotify 1000000
     \<lparr>ErrorClass = ''*fmt.wrapError'',
      Err = Errorf_wrap ''request failed'' (Errorf_wrap ''read body'' (Errorf_msg ''EOF''))\<rparr>
   = None"
  using OnBeforeNotify_diverges [of 1000000] by simp

text \<open>
  In every other case two iterations are enough: the class is not \<^verbatim>\<open>*fmt.wrapError\<close>, or
  the error wraps nothing, or what it wraps is of another class. So the loop looks one level
  down, never ten, and the warning is logged only from the loop that does not end.
\<close>

lemma OnBeforeNotify_returns:
  assumes "ErrorClass event \<noteq> ''*fmt.wrapError'' \<or> errUnwrap (Err event) = None \<or>
           (\<exists>w. errUnwrap (Err event) = Some w \<and> errType w \<noteq> ''*fmt.wrapError'')"
  shows "\<exists>r. OnBeforeNotify (Suc (Suc fuel)) event = Some r"
  using unwrap_loop_returns [OF assms, of fuel 0 "[]"]
  by (auto simp: OnBeforeNotify_def)

lemma OnBeforeNotify_stuck:
  assumes "ErrorClass event = ''*fmt.wrapError''"
    and "errUnwrap (Err event) = Some w" "errType w = ''*fmt.wrapError''"
  shows "OnBeforeNotify fuel event = None"
  using assms by (simp add: OnBeforeNotify_def unwrap_loop_stuck)

text \<open>The hook builds the error of the event above from a record of an ordinary call.\<close>

lemma Fire_wraps_twice:
  "Fire (\<lambda>e skip md. Some e)
     \<lparr>Logger = 0,
      Data = [''error'' \<mapsto> ErrorV (Errorf_wrap ''read body'' (Errorf_msg ''EOF''))],
      Message = ''request failed'', err = []\<rparr>
   = Some (Errorf_wrap ''request failed'' (Errorf_wrap ''read body'' (Errorf_msg ''EOF'')))"
  by (simp add: Fire_def)

lemma OnBeforeNotify_one_level:
  "OnBeforeNotify 2
     \<lparr>ErrorClass = ''*fmt.wrapError'',
      Err = Errorf_wrap ''request failed'' (Errorf_msg ''EOF'')\<rparr>
   = Some (\<lparr>ErrorClass = ''*errors.errorString'',
            Err = Errorf_wrap ''request failed'' (Errorf_msg ''EOF'')\<rparr>, [], None)"
  by (simp add: OnBeforeNotify_def Errorf_wrap_def Errorf_msg_def Let_def numeral_2_eq_2)

section \<open>Durations\<close>

text \<open>
  Claim C5, as the code has it. On a receiver that is not nil \<open>WithDuration\<close> sets the field
  \<open>duration_ms\<close> (the second version sets the raw nanoseconds as well) and
  \<open>WithE2EDuration\<close> sets \<open>e2e_duration_ms\<close>, both to the same \<^verbatim>\<open>int64\<close>. For a duration
  \<open>d\<close> of less than 9223372036854500000 ns in absolute value this is \<open>d\<close> rounded to the
  nearest millisecond, halves away from zero. Nearer to the limits of \<^verbatim>\<open>int64\<close> the rounded
  value does not fit, \<^verbatim>\<open>Round\<close> returns the limit, and the field is the limit divided by
  1000000 and truncated. A duration of 1500000000 ns gives 1500.
\<close>

theorem WithDuration_rounds:
  "(deref h e = Some entry \<longrightarrow>
      (\<exists>h' e' entry'. WithDuration h e d = Some (h', e') \<and> deref h' e' = Some entry' \<and>
         Data entry' = (Data entry)(''duration_ms'' \<mapsto> Int64V (duration_ms d))) \<and>
      (\<exists>h' e' entry'. WithDuration_v2 h e d = Some (h', e') \<and> deref h' e' = Some entry' \<and>
         Data entry' = (Data entry)(''duration_ms'' \<mapsto> Int64V (duration_ms d),
                                    ''nsq_message_process_duration'' \<mapsto> Int64V d)) \<and>
      (\<exists>h' e' entry'. WithE2EDuration h e d = Some (h', e') \<and> deref h' e' = Some entry' \<and>
         Data entry' = (Data entry)(''e2e_duration_ms'' \<mapsto> Int64V (duration_ms d)))) \<and>
   (\<bar>sint d\<bar> < 9223372036854500000 \<longrightarrow>
      sint (duration_ms d) = sgn (sint d) * ((\<bar>sint d\<bar> + 500000) div 1000000)) \<and>
   (9223372036854500000 \<le> sint d \<longrightarrow> sint (duration_ms d) = 9223372036854) \<and>
   (sint d \<le> - 9223372036854500000 \<longrightarrow> sint (duration_ms d) = - 9223372036854) \<and>
   duration_ms 1500000000 = 1500"
proof (intro conjI impI)
  assume v: "deref h e = Some entry"
  show "\<exists>h' e' entry'. WithDuration h e d = Some (h', e') \<and> deref h' e' = Some entry' \<and>
         Data entry' = (Data entry)(''duration_ms'' \<mapsto> Int64V (duration_ms d))"
    using v by (simp add: WithDuration_def WithField_valid Data_WithField)
  show "\<exists>h' e' entry'. WithDuration_v2 h e d = Some (h', e') \<and> deref h' e' = Some entry' \<and>
         Data entry' = (Data entry)(''duration_ms'' \<mapsto> Int64V (duration_ms d),
                                    ''nsq_message_process_duration'' \<mapsto> Int64V d)"
    using v by (simp add: WithDuration_v2_def WithField_valid Data_WithField Nanoseconds_def
        nth_append)
  show "\<exists>h' e' entry'. WithE2EDuration h e d = Some (h', e') \<and> deref h' e' = Some entry' \<and>
         Data entry' = (Data entry)(''e2e_duration_ms'' \<mapsto> Int64V (duration_ms d))"
    using v by (simp add: WithE2EDuration_def WithField_valid Data_WithField)
next
  assume small: "\<bar>sint d\<bar> < 9223372036854500000"
  show "sint (duration_ms d) = sgn (sint d) * ((\<bar>sint d\<bar> + 500000) div 1000000)"
  proof (cases "0 \<le> sint d")
    case True
    with small duration_ms_nonneg [OF True] show ?thesis
      by (cases "sint d = 0") simp_all
  next
    case False
    then have neg: "sint d < 0" by simp
    with small duration_ms_neg [OF neg] show ?thesis by simp
  qed
next
  assume "9223372036854500000 \<le> sint d"
  then show "sint (duration_ms d) = 9223372036854"
    using duration_ms_nonneg [of d] by simp
next
  assume "sint d \<le> - 9223372036854500000"
  then show "sint (duration_ms d) = - 9223372036854"
    using duration_ms_neg [of d] by simp
next
  show "duration_ms 1500000000 = 1500"
    by (simp add: duration_ms_def Nanoseconds_def Round_def Millisecond_def lessThanHalf_def
        signed_modulo_int_def signed_divide_int_def Let_def)
qed

theorem WithDuration_rounds_witness:
  "deref [logrus_NewEntry 0] (Ptr 0) = Some (logrus_NewEntry 0) \<and>
   \<bar>sint (2500000 :: 64 word)\<bar> < 9223372036854500000 \<and>
   sint (duration_ms 2500000) = 3 \<and>
   (\<exists>h' e' entry'.
      WithDuration [logrus_NewEntry 0] (Ptr 0) 2500000 = Some (h', e') \<and>
      deref h' e' = Some entry' \<and>
      Data entry' = [''duration_ms'' \<mapsto> Int64V (duration_ms 2500000)]) \<and>
   \<bar>sint (- 1499999 :: 64 word)\<bar> < 9223372036854500000 \<and>
   sint (duration_ms (- 1499999)) = - 1 \<and>
   9223372036854500000 \<le> sint (9223372036854500000 :: 64 word) \<and>
   sint (duration_ms 9223372036854500000) = 9223372036854 \<and>
   sint (- 9223372036854775808 :: 64 word) \<le> - 9223372036854500000 \<and>
   sint (duration_ms (- 9223372036854775808)) = - 9223372036854"
  using WithDuration_rounds [of "[logrus_NewEntry 0]" "Ptr 0" "logrus_NewEntry 0" 2500000]
    WithDuration_rounds [of "[logrus_NewEntry 0]" "Ptr 0" "logrus_NewEntry 0" "- 1499999"]
    WithDuration_rounds [of "[logrus_NewEntry 0]" "Ptr 0" "logrus_NewEntry 0"
      9223372036854500000]
    WithDuration_rounds [of "[logrus_NewEntry 0]" "Ptr 0" "logrus_NewEntry 0"
      "- 9223372036854775808"]
  by (simp add: logrus_NewEntry_def)

text \<open>
  The claim as written is about every duration. The largest duration lies 224193 ns below
  9223372036855 ms and 775807 ns above 9223372036854 ms; the field holds the latter, which
  is not the nearest millisecond.
\<close>

theorem WithDuration_limit_counterexample:
  "WithDuration [logrus_NewEntry 0] (Ptr 0) 9223372036854775807
     = Some ([logrus_NewEntry 0,
              \<lparr>Logger = 0, Data = [''duration_ms'' \<mapsto> Int64V 9223372036854], Message = [],
                 err = []\<rparr>],
             Ptr 1) \<and>
   sint (9223372036854775807 :: 64 word) = 9223372036854775807 \<and>
   \<bar>9223372036855 * 1000000 - 9223372036854775807\<bar>
     < \<bar>9223372036854 * 1000000 - (9223372036854775807 :: int)\<bar>"
  by (simp add: WithDuration_def With_eval duration_ms_def Nanoseconds_def Round_def
      Millisecond_def lessThanHalf_def maxDuration_def signed_modulo_int_def
      signed_divide_int_def Let_def)

end
